theory Spec2Isabelle
  imports Complex_Main
begin

section \<open>Breakpoint Resolver\<close>

text \<open>
  The four keys of the \<^verbatim>\<open>BREAKPOINTS\<close> object. The module variable
  \<^verbatim>\<open>currentBreakpoint\<close> only ever holds \<^verbatim>\<open>null\<close> or one of these four
  names (every assignment to it stores a result of \<^verbatim>\<open>getCurrentBreakpoint\<close>), so the
  names are a datatype and \<open>bp_name\<close> gives the string the source uses.
\<close>

datatype breakpoint = Desktop | Tablet | MobileL | MobileP

fun bp_name :: "breakpoint \<Rightarrow> string" where
  "bp_name Desktop = ''desktop''"
| "bp_name Tablet = ''tablet''"
| "bp_name MobileL = ''mobile-l''"
| "bp_name MobileP = ''mobile-p''"

text \<open>One entry of \<^verbatim>\<open>BREAKPOINTS\<close>; \<open>rmax = None\<close> is \<^verbatim>\<open>Infinity\<close>.\<close>

record bp_range =
  rmin :: int
  rmax :: "int option"
  order :: nat

text \<open>
  The \<^verbatim>\<open>BREAKPOINTS\<close> object: the value stored under each key, and the keys in the
  order \<^verbatim>\<open>Object.entries\<close> enumerates them (insertion order).
\<close>

fun BREAKPOINTS :: "breakpoint \<Rightarrow> bp_range" where
  "BREAKPOINTS Desktop = \<lparr>rmin = 992, rmax = None, order = 4\<rparr>"
| "BREAKPOINTS Tablet = \<lparr>rmin = 768, rmax = Some 991, order = 3\<rparr>"
| "BREAKPOINTS MobileL = \<lparr>rmin = 480, rmax = Some 767, order = 2\<rparr>"
| "BREAKPOINTS MobileP = \<lparr>rmin = 0, rmax = Some 479, order = 1\<rparr>"

definition BREAKPOINTS_keys :: "breakpoint list" where
  "BREAKPOINTS_keys = [Desktop, Tablet, MobileL, MobileP]"

definition BREAKPOINTS_entries :: "(breakpoint \<times> bp_range) list" where
  "BREAKPOINTS_entries = map (\<lambda>k. (k, BREAKPOINTS k)) BREAKPOINTS_keys"

text \<open>
  \<^verbatim>\<open>BREAKPOINTS[name]\<close> for an arbitrary string: the breakpoint of that name, if any.
  (A name inherited from the object prototype, such as \<^verbatim>\<open>constructor\<close>, is truthy in
  the source but has no \<^verbatim>\<open>order\<close>, so its comparison is false and it acts like an
  unknown name.)
\<close>

definition breakpoint_named :: "string \<Rightarrow> breakpoint option" where
  "breakpoint_named s = find (\<lambda>b. bp_name b = s) BREAKPOINTS_keys"

text \<open>\<^verbatim>\<open>width >= range.min && width <= range.max\<close>\<close>

definition in_range :: "int \<Rightarrow> bp_range \<Rightarrow> bool" where
  "in_range width r =
     (rmin r \<le> width \<and> (case rmax r of None \<Rightarrow> True | Some m \<Rightarrow> width \<le> m))"

text \<open>
  The \<^verbatim>\<open>for\<close> loop of \<^verbatim>\<open>getCurrentBreakpoint\<close>: the first entry whose range
  holds the width, \<open>None\<close> when the loop falls through to the fallback.
\<close>

fun first_match :: "int \<Rightarrow> (breakpoint \<times> bp_range) list \<Rightarrow> breakpoint option" where
  "first_match width [] = None"
| "first_match width ((name, r) # rest) =
     (if in_range width r then Some name else first_match width rest)"

section \<open>Strings, numbers and values of the host language\<close>

text \<open>
  Strings are byte strings; only the ASCII range matters to the program (attribute names,
  breakpoint names, decimal literals).
\<close>

definition is_upper :: "char \<Rightarrow> bool" where
  "is_upper c = (65 \<le> (of_char c :: nat) \<and> (of_char c :: nat) \<le> 90)"

definition to_lower :: "char \<Rightarrow> char" where
  "to_lower c = (if is_upper c then char_of ((of_char c :: nat) + 32) else c)"

definition is_digit :: "char \<Rightarrow> bool" where
  "is_digit c = (48 \<le> (of_char c :: nat) \<and> (of_char c :: nat) \<le> 57)"

definition digit_val :: "char \<Rightarrow> nat" where
  "digit_val c = (of_char c :: nat) - 48"

text \<open>The ASCII white space and line terminators that \<^verbatim>\<open>trim\<close> and \<^verbatim>\<open>parseFloat\<close> strip.\<close>

definition is_space :: "char \<Rightarrow> bool" where
  "is_space c = ((of_char c :: nat) \<in> {9, 10, 11, 12, 13, 32})"

text \<open>\<^verbatim>\<open>String.prototype.trim\<close>\<close>

definition trim :: "string \<Rightarrow> string" where
  "trim s = rev (dropWhile is_space (rev (dropWhile is_space s)))"

text \<open>
  \<^verbatim>\<open>s.split(',')\<close>: the pieces between the separators, so the empty string gives one
  empty piece and a trailing separator gives a trailing empty piece.
\<close>

fun split_on :: "char \<Rightarrow> string \<Rightarrow> string list" where
  "split_on sep [] = [[]]"
| "split_on sep (c # cs) =
     (if c = sep then [] # split_on sep cs
      else (case split_on sep cs of
              [] \<Rightarrow> [[c]]
            | piece # pieces \<Rightarrow> (c # piece) # pieces))"

text \<open>
  A number of the host language. \<open>Finite\<close> carries the mathematical value of the decimal
  literal; the rounding of that value to a double is not part of the model (the literals of
  the claims, such as 12.5, 20 and 40, are doubles exactly).
\<close>

datatype number = Finite rat | PosInfinity | NegInfinity | NaN

definition isNaN :: "number \<Rightarrow> bool" where
  "isNaN n = (n = NaN)"

definition digits_value :: "string \<Rightarrow> nat" where
  "digits_value ds = foldl (\<lambda>acc c. 10 * acc + digit_val c) 0 ds"

definition is_prefix :: "string \<Rightarrow> string \<Rightarrow> bool" where
  "is_prefix p s = (take (length p) s = p)"

text \<open>
  The optional \<^verbatim>\<open>ExponentPart\<close> of a decimal literal at the head of the rest of the
  input: \<^verbatim>\<open>e\<close> or \<^verbatim>\<open>E\<close>, an optional sign and at least one digit; when the digits
  are missing no exponent is read. The result is the sign and the magnitude.
\<close>

definition exponent_part :: "string \<Rightarrow> bool \<times> nat" where
  "exponent_part s =
     (case s of
        [] \<Rightarrow> (False, 0)
      | c # t \<Rightarrow>
          if c = CHR ''e'' \<or> c = CHR ''E'' then
            (let (neg, u) = (case t of
                               [] \<Rightarrow> (False, t)
                             | d # t' \<Rightarrow> if d = CHR ''-'' then (True, t')
                                         else if d = CHR ''+'' then (False, t')
                                         else (False, t));
                 ds = takeWhile is_digit u
             in if ds = [] then (False, 0) else (neg, digits_value ds))
          else (False, 0))"

text \<open>
  The unsigned part of \<^verbatim>\<open>parseFloat\<close>: the longest prefix that is a
  \<^verbatim>\<open>StrUnsignedDecimalLiteral\<close> (\<^verbatim>\<open>Infinity\<close>, digits with an optional fraction and
  exponent, or a fraction that starts with the point), \<open>NaN\<close> when there is none.
\<close>

definition parse_unsigned :: "string \<Rightarrow> number" where
  "parse_unsigned s =
     (if is_prefix ''Infinity'' s then PosInfinity
      else
        (let ip = takeWhile is_digit s;
             r1 = dropWhile is_digit s;
             (fp, r2) = (case r1 of
                           [] \<Rightarrow> ([], r1)
                         | c # t \<Rightarrow> if c = CHR ''.''
                                    then (takeWhile is_digit t, dropWhile is_digit t)
                                    else ([], r1))
         in if ip = [] \<and> fp = [] then NaN
            else
              (let (neg, ex) = exponent_part r2;
                   m = of_nat (digits_value ip)
                       + of_nat (digits_value fp) / (10 ^ length fp)
               in Finite (if neg then m / (10 ^ ex) else m * (10 ^ ex)))))"

definition negate :: "number \<Rightarrow> number" where
  "negate n =
     (case n of
        Finite r \<Rightarrow> Finite (- r)
      | PosInfinity \<Rightarrow> NegInfinity
      | NegInfinity \<Rightarrow> PosInfinity
      | NaN \<Rightarrow> NaN)"

text \<open>\<^verbatim>\<open>parseFloat(s)\<close>: leading white space is skipped, then an optional sign.\<close>

definition parseFloat :: "string \<Rightarrow> number" where
  "parseFloat s =
     (case dropWhile is_space s of
        [] \<Rightarrow> NaN
      | c # t \<Rightarrow> if c = CHR ''-'' then negate (parse_unsigned t)
                 else if c = CHR ''+'' then parse_unsigned t
                 else parse_unsigned (c # t))"

text \<open>
  Values of the host language: what a preset stores under a key, what a caller passes as
  a default and what the cache holds. The entries of an object are in the order
  \<^verbatim>\<open>Object.entries\<close> enumerates them.
\<close>

datatype jsval =
    JUndefined
  | JNull
  | JBool bool
  | JNumber number
  | JString string
  | JArray "jsval list"
  | JObject "(string \<times> jsval) list"

definition digit_char :: "nat \<Rightarrow> char" where
  "digit_char n = char_of (48 + n)"

fun nat_digits :: "nat \<Rightarrow> string" where
  "nat_digits n = (if n < 10 then [digit_char n] else nat_digits (n div 10) @ [digit_char (n mod 10)])"

declare nat_digits.simps [simp del]

text \<open>
  How many times a positive rational is multiplied by ten until it is an integer,
  at most \<open>fuel\<close> times.
\<close>

fun frac_places :: "nat \<Rightarrow> rat \<Rightarrow> nat" where
  "frac_places 0 r = 0"
| "frac_places (Suc fuel) r =
     (if of_int \<lfloor>r\<rfloor> = r then 0 else Suc (frac_places fuel (10 * r)))"

text \<open>
  \<^verbatim>\<open>Number::toString\<close> for a positive value: the decimal digits without trailing
  zeros and the position \<open>n\<close> of the decimal point, laid out as the language does
  (plain digits, a decimal point, leading zeros, or exponent notation outside
  \<open>10\<^sup>-\<^sup>6 \<dots> 10\<^sup>2\<^sup>1\<close>). It is the string the host prints for a value that has a
  terminating decimal expansion short enough to be a double's shortest representation,
  which is what a number in a preset is.
\<close>

definition positive_toString :: "rat \<Rightarrow> string" where
  "positive_toString r =
     (let places = frac_places 400 r;
          ds0 = nat_digits (nat \<lfloor>r * 10 ^ places\<rfloor>);
          ds = rev (dropWhile (\<lambda>c. c = CHR ''0'') (rev ds0));
          k = int (length ds);
          n = int (length ds0) - int places
      in if k \<le> n \<and> n \<le> 21 then ds @ replicate (nat (n - k)) (CHR ''0'')
         else if 0 < n \<and> n \<le> 21 then take (nat n) ds @ ''.'' @ drop (nat n) ds
         else if - 6 < n \<and> n \<le> 0 then ''0.'' @ replicate (nat (- n)) (CHR ''0'') @ ds
         else (let ex = (if 0 \<le> n - 1 then ''+'' else ''-'') @ nat_digits (nat \<bar>n - 1\<bar>)
               in if k = 1 then ds @ ''e'' @ ex
                  else take 1 ds @ ''.'' @ drop 1 ds @ ''e'' @ ex))"

definition Number_toString :: "number \<Rightarrow> string" where
  "Number_toString n =
     (case n of
        NaN \<Rightarrow> ''NaN''
      | PosInfinity \<Rightarrow> ''Infinity''
      | NegInfinity \<Rightarrow> ''-Infinity''
      | Finite r \<Rightarrow> if r = 0 then ''0''
                    else if r < 0 then ''-'' @ positive_toString (- r)
                    else positive_toString r)"

text \<open>\<^verbatim>\<open>Array.prototype.join(',')\<close> on strings already converted.\<close>

fun join_comma :: "string list \<Rightarrow> string" where
  "join_comma [] = []"
| "join_comma [x] = x"
| "join_comma (x # y # ys) = x @ '','' @ join_comma (y # ys)"

text \<open>
  The conversion to a string that \<^verbatim>\<open>setAttribute\<close> applies to its value argument.
\<close>

fun ToString :: "jsval \<Rightarrow> string" where
  "ToString JUndefined = ''undefined''"
| "ToString JNull = ''null''"
| "ToString (JBool b) = (if b then ''true'' else ''false'')"
| "ToString (JNumber n) = Number_toString n"
| "ToString (JString s) = s"
| "ToString (JArray xs) =
     join_comma (map (\<lambda>x. if x = JUndefined \<or> x = JNull then [] else ToString x) xs)"
| "ToString (JObject kvs) = ''[object Object]''"

text \<open>Truthiness, as \<^verbatim>\<open>if (preset.exclude)\<close> tests it.\<close>

fun truthy :: "jsval \<Rightarrow> bool" where
  "truthy JUndefined = False"
| "truthy JNull = False"
| "truthy (JBool b) = b"
| "truthy (JNumber n) = (n \<noteq> Finite 0 \<and> n \<noteq> NaN)"
| "truthy (JString s) = (s \<noteq> [])"
| "truthy (JArray xs) = True"
| "truthy (JObject kvs) = True"

text \<open>\<^verbatim>\<open>typeof value === 'object'\<close>: objects, arrays and \<^verbatim>\<open>null\<close>.\<close>

fun typeof_object :: "jsval \<Rightarrow> bool" where
  "typeof_object JNull = True"
| "typeof_object (JArray xs) = True"
| "typeof_object (JObject kvs) = True"
| "typeof_object v = False"

datatype error = TypeError

text \<open>
  \<^verbatim>\<open>Object.entries(value)\<close>: the entries of an object, the elements of an array under
  their indices, nothing for another primitive, and a \<^verbatim>\<open>TypeError\<close> for
  \<^verbatim>\<open>null\<close> and \<^verbatim>\<open>undefined\<close>.
\<close>

fun Object_entries :: "jsval \<Rightarrow> error + (string \<times> jsval) list" where
  "Object_entries JNull = Inl TypeError"
| "Object_entries JUndefined = Inl TypeError"
| "Object_entries (JObject kvs) = Inr kvs"
| "Object_entries (JArray xs) = Inr (zip (map nat_digits [0..<length xs]) xs)"
| "Object_entries (JString s) = Inr (zip (map nat_digits [0..<length s]) (map (\<lambda>c. JString [c]) s))"
| "Object_entries v = Inr []"

section \<open>The DOM\<close>

text \<open>
  An element is its identity; the document lists its elements in document order and
  gives each one its attribute set. Attribute names are matched exactly: the names the
  program builds are lower-case already, which is what an HTML document makes of them.
  They are taken to be valid attribute names (\<^verbatim>\<open>setAttribute\<close> throws for a name
  that is not).
\<close>

type_synonym elem = nat

record document =
  nodes :: "elem list"
  attrs :: "elem \<Rightarrow> string \<rightharpoonup> string"

definition getAttribute :: "document \<Rightarrow> elem \<Rightarrow> string \<Rightarrow> string option" where
  "getAttribute d e name = attrs d e name"

definition hasAttribute :: "document \<Rightarrow> elem \<Rightarrow> string \<Rightarrow> bool" where
  "hasAttribute d e name = (attrs d e name \<noteq> None)"

definition setAttribute :: "elem \<Rightarrow> string \<Rightarrow> string \<Rightarrow> document \<Rightarrow> document" where
  "setAttribute e name v d = d\<lparr>attrs := (attrs d)(e := (attrs d e)(name \<mapsto> v))\<rparr>"

text \<open>\<^verbatim>\<open>document.querySelectorAll('[name]')\<close>: a static list, in document order.\<close>

definition querySelectorAll :: "document \<Rightarrow> string \<Rightarrow> elem list" where
  "querySelectorAll d name = filter (\<lambda>e. hasAttribute d e name) (nodes d)"

section \<open>Preset Expander\<close>

text \<open>
  The preset document as the data model has it: categories, each a group of named
  presets, each preset its entries in enumeration order. A name that is not a key of the
  group has no preset. (The source reads the document from a global or parses it from
  the text of an element and returns at once when neither works; the model starts from
  the parsed document.)
\<close>

type_synonym preset = "(string \<times> jsval) list"
type_synonym preset_group = "(string \<times> preset) list"
type_synonym preset_document = "(string \<times> preset_group) list"

text \<open>
  \<^verbatim>\<open>'data-gsap-' + key.replace(/([A-Z])/g, '-$1').toLowerCase()\<close>
\<close>

definition hyphenate_upper :: "string \<Rightarrow> string" where
  "hyphenate_upper key = concat (map (\<lambda>c. if is_upper c then [CHR ''-'', c] else [c]) key)"

definition toLowerCase :: "string \<Rightarrow> string" where
  "toLowerCase s = map to_lower s"

definition toDataAttr :: "string \<Rightarrow> string" where
  "toDataAttr key = ''data-gsap-'' @ toLowerCase (hyphenate_upper key)"

definition breakpoints :: "string list" where
  "breakpoints = [''desktop'', ''tablet'', ''mobile-l'', ''mobile-p'']"

text \<open>
  The outcome of a run: the document, or the uncaught error together with the document
  as the run left it when the error was thrown.
\<close>

type_synonym outcome = "(error \<times> document) + document"

text \<open>\<^verbatim>\<open>forEach\<close> with a callback that may throw: the first error ends the loop.\<close>

fun forEach :: "('a \<Rightarrow> document \<Rightarrow> outcome) \<Rightarrow> 'a list \<Rightarrow> document \<Rightarrow> outcome" where
  "forEach f [] d = Inr d"
| "forEach f (x # xs) d =
     (case f x d of
        Inl err \<Rightarrow> Inl err
      | Inr d' \<Rightarrow> forEach f xs d')"

text \<open>The inner loop over the entries under a breakpoint key.\<close>

fun set_breakpoint_attrs :: "elem \<Rightarrow> string \<Rightarrow> (string \<times> jsval) list \<Rightarrow> document \<Rightarrow> document" where
  "set_breakpoint_attrs e key [] d = d"
| "set_breakpoint_attrs e key ((bpKey, bpValue) # rest) d =
     set_breakpoint_attrs e key rest
       (setAttribute e (toDataAttr (bpKey @ ''-'' @ key)) (ToString bpValue) d)"

text \<open>The callback of \<^verbatim>\<open>Object.entries(preset).forEach\<close>, for one entry.\<close>

definition apply_entry :: "elem \<Rightarrow> string \<times> jsval \<Rightarrow> document \<Rightarrow> outcome" where
  "apply_entry e kv d =
     (let key = fst kv; v = snd kv
      in if key = ''split'' \<or> key = ''exclude'' then Inr d
         else if key = ''trigger'' \<and> hasAttribute d e ''data-gsap-trigger'' then Inr d
         else if key \<in> set breakpoints then
           (if typeof_object v then
              (case Object_entries v of
                 Inl err \<Rightarrow> Inl (err, d)
               | Inr kvs \<Rightarrow> Inr (set_breakpoint_attrs e key kvs d))
            else Inr d)
         else Inr (setAttribute e (toDataAttr key) (ToString v) d))"

text \<open>
  The callback of \<^verbatim>\<open>querySelectorAll(...).forEach\<close>, for one element. A name without
  a preset is warned about and skipped.
\<close>

definition expand_element :: "string \<Rightarrow> preset_group \<Rightarrow> elem \<Rightarrow> document \<Rightarrow> outcome" where
  "expand_element typeAttr presetGroup e d =
     (let animationName = (case getAttribute d e typeAttr of None \<Rightarrow> ''null'' | Some a \<Rightarrow> a)
      in case map_of presetGroup animationName of
           None \<Rightarrow> Inr d
         | Some preset \<Rightarrow>
             (let d1 = (if map_of preset ''split'' = Some (JBool True)
                        then setAttribute e ''data-gsap-split'' ''true'' d else d);
                  d2 = (case map_of preset ''exclude'' of
                          None \<Rightarrow> d1
                        | Some x \<Rightarrow> if truthy x
                                    then setAttribute e ''data-gsap-exclude'' (ToString x) d1
                                    else d1)
              in forEach (apply_entry e) preset d2))"

text \<open>The callback of \<^verbatim>\<open>Object.keys(presets).forEach\<close>, for one category.\<close>

definition expand_type :: "string \<times> preset_group \<Rightarrow> document \<Rightarrow> outcome" where
  "expand_type tg d =
     (let typeAttr = ''data-gsap-'' @ fst tg
      in forEach (expand_element typeAttr (snd tg)) (querySelectorAll d typeAttr) d)"

definition preset_expander :: "preset_document \<Rightarrow> document \<Rightarrow> outcome" where
  "preset_expander presets d = forEach expand_type presets d"

text \<open>The document a run leaves behind, thrown or not.\<close>

fun final_document :: "outcome \<Rightarrow> document" where
  "final_document (Inl (err, d)) = d"
| "final_document (Inr d) = d"

section \<open>Responsive Value Cache, Exclusion Evaluator and listeners\<close>

text \<open>
  The module state of the animation script: the viewport width the window reports, the
  memoised breakpoint (\<open>None\<close> is \<^verbatim>\<open>null\<close>), the cache (a map from elements to maps
  from keys to values) and the number of \<^verbatim>\<open>ScrollTrigger.refresh()\<close> calls made.
  Time is not part of the model: a timer callback is its body, run when the timer fires.
\<close>

record state =
  innerWidth :: int
  currentBreakpoint :: "breakpoint option"
  responsiveValueCache :: "elem \<rightharpoonup> (string \<rightharpoonup> jsval)"
  refreshes :: nat

definition getCurrentBreakpoint :: "state \<Rightarrow> breakpoint \<times> state" where
  "getCurrentBreakpoint s =
     (case currentBreakpoint s of
        Some b \<Rightarrow> (b, s)
      | None \<Rightarrow>
          (case first_match (innerWidth s) BREAKPOINTS_entries of
             Some name \<Rightarrow> (name, s\<lparr>currentBreakpoint := Some name\<rparr>)
           | None \<Rightarrow> (Desktop, s\<lparr>currentBreakpoint := Some Desktop\<rparr>)))"

definition cacheResponsiveValuesForElement :: "elem \<Rightarrow> state \<Rightarrow> (string \<rightharpoonup> jsval) \<times> state" where
  "cacheResponsiveValuesForElement element s =
     (case responsiveValueCache s element of
        None \<Rightarrow> (Map.empty, s\<lparr>responsiveValueCache := (responsiveValueCache s)(element \<mapsto> Map.empty)\<rparr>)
      | Some m \<Rightarrow> (m, s))"

text \<open>\<^verbatim>\<open>elementCache.set(cacheKey, value)\<close> on the map the cache holds for the element.\<close>

definition elementCache_set :: "elem \<Rightarrow> string \<Rightarrow> jsval \<Rightarrow> state \<Rightarrow> state" where
  "elementCache_set element cacheKey v s =
     s\<lparr>responsiveValueCache := (responsiveValueCache s)
          (element \<mapsto> (case responsiveValueCache s element of
                          None \<Rightarrow> Map.empty
                        | Some m \<Rightarrow> m)(cacheKey \<mapsto> v))\<rparr>"

text \<open>The loop over the names of the exclude list: \<open>True\<close> when it returns true.\<close>

fun excluded_by_list :: "nat \<Rightarrow> string list \<Rightarrow> bool" where
  "excluded_by_list breakpointOrder [] = False"
| "excluded_by_list breakpointOrder (excludedBreakpoint # rest) =
     (case breakpoint_named excludedBreakpoint of
        None \<Rightarrow> excluded_by_list breakpointOrder rest
      | Some b \<Rightarrow> if order (BREAKPOINTS b) \<ge> breakpointOrder then True
                  else excluded_by_list breakpointOrder rest)"

definition shouldExcludeAnimation :: "document \<Rightarrow> elem \<Rightarrow> state \<Rightarrow> jsval \<times> state" where
  "shouldExcludeAnimation doc element s =
     (let (breakpoint, s1) = getCurrentBreakpoint s;
          breakpointOrder = order (BREAKPOINTS breakpoint);
          (elementCache, s2) = cacheResponsiveValuesForElement element s1;
          cacheKey = ''exclude_'' @ bp_name breakpoint
      in case elementCache cacheKey of
           Some cached \<Rightarrow> (cached, s2)
         | None \<Rightarrow>
             if (case getAttribute doc element ''data-gsap-exclude'' of
                   None \<Rightarrow> False
                 | Some excludeValue \<Rightarrow>
                     excludeValue \<noteq> [] \<and>
                     excluded_by_list breakpointOrder (map trim (split_on (CHR '','') excludeValue)))
             then (JBool True, elementCache_set element cacheKey (JBool True) s2)
             else if hasAttribute doc element (''data-gsap-exclude-'' @ bp_name breakpoint)
             then (JBool True, elementCache_set element cacheKey (JBool True) s2)
             else (JBool False, elementCache_set element cacheKey (JBool False) s2))"

text \<open>\<^verbatim>\<open>isNaN(parseFloat(v)) ? v : parseFloat(v)\<close>\<close>

definition parse_value :: "string \<Rightarrow> jsval" where
  "parse_value v = (if isNaN (parseFloat v) then JString v else JNumber (parseFloat v))"

definition getResponsiveValue :: "document \<Rightarrow> elem \<Rightarrow> string \<Rightarrow> jsval \<Rightarrow> state \<Rightarrow> jsval \<times> state" where
  "getResponsiveValue doc element paramName defaultValue s =
     (let (breakpoint, s1) = getCurrentBreakpoint s;
          (elementCache, s2) = cacheResponsiveValuesForElement element s1;
          cacheKey = paramName @ ''_'' @ bp_name breakpoint
      in case elementCache cacheKey of
           Some cached \<Rightarrow> (cached, s2)
         | None \<Rightarrow>
             (case getAttribute doc element (''data-gsap-'' @ paramName @ ''-'' @ bp_name breakpoint) of
                Some breakpointValue \<Rightarrow>
                  (parse_value breakpointValue,
                   elementCache_set element cacheKey (parse_value breakpointValue) s2)
              | None \<Rightarrow>
                  (case getAttribute doc element (''data-gsap-'' @ paramName) of
                     Some standardValue \<Rightarrow>
                       (parse_value standardValue,
                        elementCache_set element cacheKey (parse_value standardValue) s2)
                   | None \<Rightarrow>
                       (defaultValue, elementCache_set element cacheKey defaultValue s2))))"

text \<open>
  \<^verbatim>\<open>setupResponsiveListeners\<close>: the assignment it makes before it registers the two
  handlers.
\<close>

definition setupResponsiveListeners :: "state \<Rightarrow> state" where
  "setupResponsiveListeners s =
     (let (b, s1) = getCurrentBreakpoint s in s1\<lparr>currentBreakpoint := Some b\<rparr>)"

text \<open>
  The body of the debounced resize callback, run when the 250 ms timer fires. The
  comparison reads \<^verbatim>\<open>currentBreakpoint\<close> after the call of
  \<^verbatim>\<open>getCurrentBreakpoint\<close>.
\<close>

definition resize_callback :: "state \<Rightarrow> state" where
  "resize_callback s =
     (let (newBreakpoint, s1) = getCurrentBreakpoint s
      in if Some newBreakpoint \<noteq> currentBreakpoint s1
         then s1\<lparr>currentBreakpoint := Some newBreakpoint,
                 responsiveValueCache := Map.empty,
                 refreshes := Suc (refreshes s1)\<rparr>
         else s1)"

text \<open>The body of the orientation-change callback, run when the 350 ms timer fires.\<close>

definition orientation_callback :: "state \<Rightarrow> state" where
  "orientation_callback s =
     (let (b, s1) = getCurrentBreakpoint s
      in s1\<lparr>currentBreakpoint := Some b,
             responsiveValueCache := Map.empty,
             refreshes := Suc (refreshes s1)\<rparr>)"

text \<open>The window reports a new width (the user resizes or rotates the viewport).\<close>

definition viewport_width_changes :: "int \<Rightarrow> state \<Rightarrow> state" where
  "viewport_width_changes w s = s\<lparr>innerWidth := w\<rparr>"

section \<open>Example inputs\<close>

text \<open>The module state when the script starts, for a viewport of the given width.\<close>

definition initial_state :: "int \<Rightarrow> state" where
  "initial_state w =
     \<lparr>innerWidth = w, currentBreakpoint = None, responsiveValueCache = Map.empty, refreshes = 0\<rparr>"

text \<open>A document of one element, with the given attributes.\<close>

definition single_element :: "(string \<times> string) list \<Rightarrow> document" where
  "single_element kvs = \<lparr>nodes = [0], attrs = (\<lambda>e. if e = 0 then map_of kvs else Map.empty)\<rparr>"

text \<open>
  An element with one value of \<^verbatim>\<open>y\<close> for desktop and another for tablet.
\<close>

definition breakpoint_document :: document where
  "breakpoint_document =
     single_element [(''data-gsap-y-desktop'', ''10''), (''data-gsap-y-tablet'', ''20'')]"

text \<open>
  The module state after the script has started in a viewport 1200 wide,
  \<^verbatim>\<open>setupResponsiveListeners\<close> has run and \<^verbatim>\<open>y\<close> has been resolved once for the
  element, with the default 0.
\<close>

definition resolved_once :: "document \<Rightarrow> state" where
  "resolved_once doc =
     snd (getResponsiveValue doc 0 ''y'' (JNumber (Finite 0))
            (setupResponsiveListeners (initial_state 1200)))"

text \<open>
  The preset document
  \<^verbatim>\<open>{"view": {"fadeUp": {"up": true, "start-y": 40, "tablet": {"start-y": 20}}}}\<close>
  and a document of one element tagged \<^verbatim>\<open>data-gsap-view="fadeUp"\<close>.
\<close>

definition fadeUp_presets :: preset_document where
  "fadeUp_presets =
     [(''view'',
       [(''fadeUp'',
         [(''up'', JBool True),
          (''start-y'', JNumber (Finite 40)),
          (''tablet'', JObject [(''start-y'', JNumber (Finite 20))])])])]"

definition fadeUp_document :: document where
  "fadeUp_document = single_element [(''data-gsap-view'', ''fadeUp'')]"




text \<open>A preset with a number under a breakpoint key: \<^verbatim>\<open>{"view": {"fadeUp": {"tablet": 5}}}\<close>.\<close>

definition scalar_breakpoint_presets :: preset_document where
  "scalar_breakpoint_presets = [(''view'', [(''fadeUp'', [(''tablet'', JNumber (Finite 5))])])]"

section \<open>Notions the properties are stated with\<close>

text \<open>The value the cache holds for an element under a key, if any.\<close>

definition cache_lookup :: "state \<Rightarrow> elem \<Rightarrow> string \<Rightarrow> jsval option" where
  "cache_lookup s element cacheKey =
     (case responsiveValueCache s element of
        None \<Rightarrow> None
      | Some m \<Rightarrow> m cacheKey)"

text \<open>
  The resolution order in the words of the specification: the breakpoint-specific
  attribute, else the breakpoint-agnostic attribute, else the default of the caller.
\<close>

definition resolution_order :: "document \<Rightarrow> elem \<Rightarrow> string \<Rightarrow> breakpoint \<Rightarrow> jsval \<Rightarrow> jsval" where
  "resolution_order doc element paramName b defaultValue =
     (case getAttribute doc element (''data-gsap-'' @ paramName @ ''-'' @ bp_name b) of
        Some v \<Rightarrow> parse_value v
      | None \<Rightarrow>
          (case getAttribute doc element (''data-gsap-'' @ paramName) of
             Some v \<Rightarrow> parse_value v
           | None \<Rightarrow> defaultValue))"

text \<open>
  The exclude attribute in the words of the specification: a comma-separated list of
  names with the white space around each name removed; no names without the attribute.
\<close>

definition exclude_list :: "document \<Rightarrow> elem \<Rightarrow> string list" where
  "exclude_list doc element =
     (case getAttribute doc element ''data-gsap-exclude'' of
        None \<Rightarrow> []
      | Some v \<Rightarrow> map trim (split_on (CHR '','') v))"

text \<open>
  A name of the list that is a breakpoint whose order is at least the given order.
\<close>

definition names_breakpoint_from :: "nat \<Rightarrow> string \<Rightarrow> bool" where
  "names_breakpoint_from breakpointOrder name =
     (case breakpoint_named name of
        None \<Rightarrow> False
      | Some b \<Rightarrow> breakpointOrder \<le> order (BREAKPOINTS b))"

text \<open>
  The calls the animation drivers make on the resolver, and a sequence of them run one
  after the other on the module state.
\<close>

datatype resolver_call =
    GetResponsiveValue elem string jsval
  | ShouldExcludeAnimation elem

fun run_call :: "document \<Rightarrow> resolver_call \<Rightarrow> state \<Rightarrow> state" where
  "run_call doc (GetResponsiveValue element paramName defaultValue) s =
     snd (getResponsiveValue doc element paramName defaultValue s)"
| "run_call doc (ShouldExcludeAnimation element) s =
     snd (shouldExcludeAnimation doc element s)"

fun run_calls :: "document \<Rightarrow> resolver_call list \<Rightarrow> state \<Rightarrow> state" where
  "run_calls doc [] s = s"
| "run_calls doc (c # cs) s = run_calls doc cs (run_call doc c s)"




text \<open>
  A run of the expander as the sequence of writes it performs: \<open>Write\<close> sets an
  attribute, \<open>WriteTrigger\<close> sets the trigger attribute unless the element has one.
  The flag of a script says that the run ends in a \<^verbatim>\<open>TypeError\<close> after its writes.
\<close>

datatype attr_write = Write elem string string | WriteTrigger elem string


fun perform :: "attr_write \<Rightarrow> document \<Rightarrow> document" where
  "perform (Write e name v) d = setAttribute e name v d"
| "perform (WriteTrigger e v) d =
     (if hasAttribute d e ''data-gsap-trigger'' then d
      else setAttribute e ''data-gsap-trigger'' v d)"

fun perform_all :: "attr_write list \<Rightarrow> document \<Rightarrow> document" where
  "perform_all [] d = d"
| "perform_all (w # ws) d = perform_all ws (perform w d)"

definition result_of :: "attr_write list \<times> bool \<Rightarrow> document \<Rightarrow> outcome" where
  "result_of script d =
     (if snd script then Inl (TypeError, perform_all (fst script) d)
      else Inr (perform_all (fst script) d))"










section \<open>Breakpoint classification\<close>

lemma first_match_nonneg:
  "0 \<le> w \<Longrightarrow> first_match w BREAKPOINTS_entries =
     Some (if w \<le> 479 then MobileP else if w \<le> 767 then MobileL
           else if w \<le> 991 then Tablet else Desktop)"
  by (simp add: BREAKPOINTS_entries_def BREAKPOINTS_keys_def in_range_def)

lemma in_range_unique:
  "0 \<le> w \<Longrightarrow> in_range w (BREAKPOINTS b) \<longleftrightarrow>
     b = (if w \<le> 479 then MobileP else if w \<le> 767 then MobileL
          else if w \<le> 991 then Tablet else Desktop)"
  by (cases b) (auto simp: in_range_def)

text \<open>
  Claim C8. For every non-negative viewport width exactly one of the four ranges
  mobile-p [0,479], mobile-l [480,767], tablet [768,991], desktop [992,\<open>\<infinity>\<close>) holds the
  width; with an empty memo \<^verbatim>\<open>getCurrentBreakpoint\<close> returns that breakpoint; and the
  loop always finds a match, so the fallback after it is not reached.
\<close>

theorem breakpoint_ranges_partition:
  assumes "0 \<le> innerWidth s" and "currentBreakpoint s = None"
  shows "(\<exists>!b. in_range (innerWidth s) (BREAKPOINTS b))
       \<and> in_range (innerWidth s) (BREAKPOINTS (fst (getCurrentBreakpoint s)))
       \<and> first_match (innerWidth s) BREAKPOINTS_entries \<noteq> None
       \<and> fst (getCurrentBreakpoint s) =
           (if innerWidth s \<le> 479 then MobileP else if innerWidth s \<le> 767 then MobileL
            else if innerWidth s \<le> 991 then Tablet else Desktop)"
proof -
  let ?b = "if innerWidth s \<le> 479 then MobileP else if innerWidth s \<le> 767 then MobileL
            else if innerWidth s \<le> 991 then Tablet else Desktop"
  have fm: "first_match (innerWidth s) BREAKPOINTS_entries = Some ?b"
    using assms(1) by (rule first_match_nonneg)
  have res: "fst (getCurrentBreakpoint s) = ?b"
    using assms(2) fm by (simp add: getCurrentBreakpoint_def)
  have uniq: "\<exists>!b. in_range (innerWidth s) (BREAKPOINTS b)"
    unfolding in_range_unique [OF assms(1)] by (rule ex1_eq)
  have "in_range (innerWidth s) (BREAKPOINTS ?b)"
    using in_range_unique [OF assms(1), of ?b] by simp
  with res fm uniq show ?thesis by simp
qed

theorem breakpoint_ranges_partition_witness:
  "0 \<le> innerWidth (initial_state 500) \<and> currentBreakpoint (initial_state 500) = None
   \<and> (\<exists>!b. in_range 500 (BREAKPOINTS b))
   \<and> in_range 500 (BREAKPOINTS MobileL)
   \<and> first_match 500 BREAKPOINTS_entries \<noteq> None
   \<and> fst (getCurrentBreakpoint (initial_state 500)) = MobileL"
  using breakpoint_ranges_partition [of "initial_state 500"]
  by (auto simp add: initial_state_def)

section \<open>Resize and orientation change\<close>

lemma getCurrentBreakpoint_memo:
  "currentBreakpoint (snd (getCurrentBreakpoint s)) = Some (fst (getCurrentBreakpoint s))"
  by (simp add: getCurrentBreakpoint_def split: option.splits)

lemma getCurrentBreakpoint_Some:
  "currentBreakpoint s = Some b \<Longrightarrow> getCurrentBreakpoint s = (b, s)"
  by (simp add: getCurrentBreakpoint_def)

text \<open>
  The resize callback compares the result of \<^verbatim>\<open>getCurrentBreakpoint\<close> with the variable
  that call has just returned or set, so its branch is never taken: in every state it
  does what \<^verbatim>\<open>getCurrentBreakpoint\<close> does and nothing more.
\<close>

lemma resize_callback_eq: "resize_callback s = snd (getCurrentBreakpoint s)"
  using getCurrentBreakpoint_memo [of s]
  by (cases "getCurrentBreakpoint s") (simp add: resize_callback_def)

section \<open>The resolver and its cache\<close>

lemma getCurrentBreakpoint_cache:
  "responsiveValueCache (snd (getCurrentBreakpoint s)) = responsiveValueCache s"
  by (simp add: getCurrentBreakpoint_def split: option.splits)

lemma cache_lookup_getCurrentBreakpoint:
  "cache_lookup (snd (getCurrentBreakpoint s)) e k = cache_lookup s e k"
  by (simp add: cache_lookup_def getCurrentBreakpoint_cache)

lemma cacheResponsiveValuesForElement_fst:
  "fst (cacheResponsiveValuesForElement e s) k = cache_lookup s e k"
  by (simp add: cacheResponsiveValuesForElement_def cache_lookup_def split: option.splits)

lemma cacheResponsiveValuesForElement_lookup:
  "cache_lookup (snd (cacheResponsiveValuesForElement e s)) e' k = cache_lookup s e' k"
  by (simp add: cacheResponsiveValuesForElement_def cache_lookup_def split: option.splits)

lemma cacheResponsiveValuesForElement_bp:
  "currentBreakpoint (snd (cacheResponsiveValuesForElement e s)) = currentBreakpoint s"
  by (simp add: cacheResponsiveValuesForElement_def split: option.splits)

lemma elementCache_set_lookup:
  "cache_lookup (elementCache_set e k v s) e' k' =
     (if e' = e \<and> k' = k then Some v else cache_lookup s e' k')"
  by (simp add: elementCache_set_def cache_lookup_def split: option.splits)

lemma elementCache_set_bp:
  "currentBreakpoint (elementCache_set e k v s) = currentBreakpoint s"
  by (simp add: elementCache_set_def)

text \<open>The three facts about one call of the resolver.\<close>

lemma getResponsiveValue_fst:
  "fst (getResponsiveValue doc e p d s) =
     (case cache_lookup s e (p @ ''_'' @ bp_name (fst (getCurrentBreakpoint s))) of
        Some c \<Rightarrow> c
      | None \<Rightarrow> resolution_order doc e p (fst (getCurrentBreakpoint s)) d)"
proof -
  obtain b s1 where g: "getCurrentBreakpoint s = (b, s1)" by (cases "getCurrentBreakpoint s")
  obtain m s2 where c: "cacheResponsiveValuesForElement e s1 = (m, s2)"
    by (cases "cacheResponsiveValuesForElement e s1")
  have m: "m k = cache_lookup s e k" for k
    using cacheResponsiveValuesForElement_fst [of e s1 k] cache_lookup_getCurrentBreakpoint [of s e k]
    by (simp add: g c)
  show ?thesis
    by (simp add: getResponsiveValue_def Let_def g c m resolution_order_def split: option.splits)
qed

lemma getResponsiveValue_lookup:
  "cache_lookup (snd (getResponsiveValue doc e p d s)) e' k' =
     (if e' = e \<and> k' = p @ ''_'' @ bp_name (fst (getCurrentBreakpoint s))
         \<and> cache_lookup s e k' = None
      then Some (fst (getResponsiveValue doc e p d s))
      else cache_lookup s e' k')"
proof -
  obtain b s1 where g: "getCurrentBreakpoint s = (b, s1)" by (cases "getCurrentBreakpoint s")
  obtain m s2 where c: "cacheResponsiveValuesForElement e s1 = (m, s2)"
    by (cases "cacheResponsiveValuesForElement e s1")
  have m: "m k = cache_lookup s e k" for k
    using cacheResponsiveValuesForElement_fst [of e s1 k] cache_lookup_getCurrentBreakpoint [of s e k]
    by (simp add: g c)
  have s2: "cache_lookup s2 x k = cache_lookup s x k" for x k
    using cacheResponsiveValuesForElement_lookup [of e s1 x k] cache_lookup_getCurrentBreakpoint [of s x k]
    by (simp add: g c)
  show ?thesis
    by (auto simp add: getResponsiveValue_def Let_def g c m s2 elementCache_set_lookup resolution_order_def split: option.splits)
qed

lemma getResponsiveValue_bp:
  "currentBreakpoint (snd (getResponsiveValue doc e p d s)) = Some (fst (getCurrentBreakpoint s))"
proof -
  obtain b s1 where g: "getCurrentBreakpoint s = (b, s1)" by (cases "getCurrentBreakpoint s")
  obtain m s2 where c: "cacheResponsiveValuesForElement e s1 = (m, s2)"
    by (cases "cacheResponsiveValuesForElement e s1")
  have "currentBreakpoint s2 = Some b"
    using getCurrentBreakpoint_memo [of s] cacheResponsiveValuesForElement_bp [of e s1]
    by (simp add: g c)
  then show ?thesis
    by (simp add: getResponsiveValue_def Let_def g c elementCache_set_bp split: option.splits)
qed

lemma shouldExcludeAnimation_lookup:
  "cache_lookup (snd (shouldExcludeAnimation doc e s)) e' k' =
     (if e' = e \<and> k' = ''exclude_'' @ bp_name (fst (getCurrentBreakpoint s))
         \<and> cache_lookup s e k' = None
      then Some (fst (shouldExcludeAnimation doc e s))
      else cache_lookup s e' k')"
proof -
  obtain b s1 where g: "getCurrentBreakpoint s = (b, s1)" by (cases "getCurrentBreakpoint s")
  obtain m s2 where c: "cacheResponsiveValuesForElement e s1 = (m, s2)"
    by (cases "cacheResponsiveValuesForElement e s1")
  have m: "m k = cache_lookup s e k" for k
    using cacheResponsiveValuesForElement_fst [of e s1 k] cache_lookup_getCurrentBreakpoint [of s e k]
    by (simp add: g c)
  have s2: "cache_lookup s2 x k = cache_lookup s x k" for x k
    using cacheResponsiveValuesForElement_lookup [of e s1 x k] cache_lookup_getCurrentBreakpoint [of s x k]
    by (simp add: g c)
  show ?thesis
    by (auto simp add: shouldExcludeAnimation_def Let_def g c m s2 elementCache_set_lookup split: option.splits)
qed

lemma shouldExcludeAnimation_bp:
  "currentBreakpoint (snd (shouldExcludeAnimation doc e s)) = Some (fst (getCurrentBreakpoint s))"
proof -
  obtain b s1 where g: "getCurrentBreakpoint s = (b, s1)" by (cases "getCurrentBreakpoint s")
  obtain m s2 where c: "cacheResponsiveValuesForElement e s1 = (m, s2)"
    by (cases "cacheResponsiveValuesForElement e s1")
  have "currentBreakpoint s2 = Some b"
    using getCurrentBreakpoint_memo [of s] cacheResponsiveValuesForElement_bp [of e s1]
    by (simp add: g c)
  then show ?thesis
    by (simp add: shouldExcludeAnimation_def Let_def g c elementCache_set_bp split: option.splits)
qed

lemma bp_name_suffix_inj:
  "q @ ''_'' @ bp_name b1 = p @ ''_'' @ bp_name b2 \<Longrightarrow> b1 = b2"
proof -
  assume "q @ ''_'' @ bp_name b1 = p @ ''_'' @ bp_name b2"
  then have "rev (q @ ''_'' @ bp_name b1) = rev (p @ ''_'' @ bp_name b2)" by simp
  then show ?thesis by (cases b1; cases b2) simp_all
qed

lemma cache_lookup_bp_update:
  "cache_lookup (s\<lparr>currentBreakpoint := x\<rparr>) e k = cache_lookup s e k"
  by (simp add: cache_lookup_def)

lemma getCurrentBreakpoint_update:
  "getCurrentBreakpoint (s\<lparr>currentBreakpoint := Some b\<rparr>) = (b, s\<lparr>currentBreakpoint := Some b\<rparr>)"
  by (simp add: getCurrentBreakpoint_def)



section \<open>Memoised defaults\<close>



text \<open>
  The memoised default lives as long as the cache entry. The orientation callback clears
  the cache, so a call made after it returns its own default, 50.
\<close>

lemma default_resolved_again_after_clear:
  "cache_lookup (resolved_once (single_element [])) 0 ''y_desktop'' = Some (JNumber (Finite 0))
   \<and> fst (getResponsiveValue (single_element []) 0 ''y'' (JNumber (Finite 50))
          (orientation_callback (viewport_width_changes 1000 (resolved_once (single_element [])))))
       = JNumber (Finite 50)"
  by code_simp

section \<open>Cache entries and the active breakpoint\<close>

text \<open>
  The cache key ends in the name of the breakpoint, so what is read under one breakpoint
  does not depend on what was written under another: had the module variable become
  \<open>b2\<close> after a call under \<open>b1\<close>, the next call would return what it would have
  returned without the earlier call, with the cache cleared or not.
\<close>

lemma cache_entries_isolated_by_breakpoint:
  assumes "fst (getCurrentBreakpoint s) = b1" and "b1 \<noteq> b2"
  shows "fst (getResponsiveValue doc e p d2
                ((snd (getResponsiveValue doc e p d1 s))\<lparr>currentBreakpoint := Some b2\<rparr>))
           = fst (getResponsiveValue doc e p d2 (s\<lparr>currentBreakpoint := Some b2\<rparr>))
       \<and> fst (getResponsiveValue doc e p d2
                ((elementCache_set e' (q @ ''_'' @ bp_name b1) v s)\<lparr>currentBreakpoint := Some b2\<rparr>))
           = fst (getResponsiveValue doc e p d2 (s\<lparr>currentBreakpoint := Some b2\<rparr>))
       \<and> fst (getResponsiveValue doc e p d2
                ((snd (getResponsiveValue doc e p d1 s))
                   \<lparr>currentBreakpoint := Some b2, responsiveValueCache := Map.empty\<rparr>))
           = resolution_order doc e p b2 d2"
proof -
  let ?s1 = "snd (getResponsiveValue doc e p d1 s)"
  let ?k2 = "p @ ''_'' @ bp_name b2"
  have k: "?k2 \<noteq> q' @ ''_'' @ bp_name b1" for q'
    using assms(2) bp_name_suffix_inj [of p b2 q' b1] by blast
  have l: "cache_lookup (?s1\<lparr>currentBreakpoint := Some b2\<rparr>) e ?k2
         = cache_lookup (s\<lparr>currentBreakpoint := Some b2\<rparr>) e ?k2"
    using k [of p] assms(1) getResponsiveValue_lookup [of doc e p d1 s e ?k2]
    by (simp add: cache_lookup_bp_update)
  have first: "fst (getResponsiveValue doc e p d2 (?s1\<lparr>currentBreakpoint := Some b2\<rparr>))
           = fst (getResponsiveValue doc e p d2 (s\<lparr>currentBreakpoint := Some b2\<rparr>))"
    unfolding getResponsiveValue_fst getCurrentBreakpoint_update fst_conv l by (rule refl)
  have l': "cache_lookup ((elementCache_set e' (q @ ''_'' @ bp_name b1) v s)\<lparr>currentBreakpoint := Some b2\<rparr>) e ?k2
         = cache_lookup (s\<lparr>currentBreakpoint := Some b2\<rparr>) e ?k2"
    using k [of q] by (simp add: cache_lookup_bp_update elementCache_set_lookup)
  have second: "fst (getResponsiveValue doc e p d2
                ((elementCache_set e' (q @ ''_'' @ bp_name b1) v s)\<lparr>currentBreakpoint := Some b2\<rparr>))
           = fst (getResponsiveValue doc e p d2 (s\<lparr>currentBreakpoint := Some b2\<rparr>))"
    unfolding getResponsiveValue_fst getCurrentBreakpoint_update fst_conv l' by (rule refl)
  have l'': "cache_lookup (?s1\<lparr>currentBreakpoint := Some b2, responsiveValueCache := Map.empty\<rparr>) e ?k2 = None"
    by (simp add: cache_lookup_def)
  have g: "fst (getCurrentBreakpoint (?s1\<lparr>currentBreakpoint := Some b2, responsiveValueCache := Map.empty\<rparr>)) = b2"
    by (simp add: getCurrentBreakpoint_def)
  have third: "fst (getResponsiveValue doc e p d2
                (?s1\<lparr>currentBreakpoint := Some b2, responsiveValueCache := Map.empty\<rparr>))
           = resolution_order doc e p b2 d2"
    unfolding getResponsiveValue_fst g l'' by simp
  from first second third show ?thesis by simp
qed

text \<open>
  Claim C2, at a failing input. In a viewport 1200 wide (desktop) the value of \<^verbatim>\<open>y\<close>
  is resolved to 10 and cached. The viewport becomes 800 wide, which is in the range of
  tablet, where the element has the value 20, and the resize timer fires. The module
  variable is still desktop, the entry cached under desktop is still there, and the next
  call returns it: 10. After the orientation timer the cache is empty, yet the call
  resolves for desktop again.
\<close>

theorem stale_value_after_resize:
  "fst (getResponsiveValue breakpoint_document 0 ''y'' (JNumber (Finite 0))
          (setupResponsiveListeners (initial_state 1200))) = JNumber (Finite 10)
   \<and> first_match 800 BREAKPOINTS_entries = Some Tablet
   \<and> resolution_order breakpoint_document 0 ''y'' Tablet (JNumber (Finite 0)) = JNumber (Finite 20)
   \<and> currentBreakpoint (resize_callback (viewport_width_changes 800 (resolved_once breakpoint_document)))
       = Some Desktop
   \<and> cache_lookup (resize_callback (viewport_width_changes 800 (resolved_once breakpoint_document)))
         0 ''y_desktop'' = Some (JNumber (Finite 10))
   \<and> fst (getResponsiveValue breakpoint_document 0 ''y'' (JNumber (Finite 0))
          (resize_callback (viewport_width_changes 800 (resolved_once breakpoint_document))))
       = JNumber (Finite 10)
   \<and> fst (getResponsiveValue breakpoint_document 0 ''y'' (JNumber (Finite 0))
          (orientation_callback (viewport_width_changes 800 (resolved_once breakpoint_document))))
       = JNumber (Finite 10)"
  by code_simp

section \<open>What the two callbacks do\<close>

lemma getCurrentBreakpoint_refreshes:
  "refreshes (snd (getCurrentBreakpoint s)) = refreshes s"
  by (simp add: getCurrentBreakpoint_def split: option.splits)

text \<open>
  Against claim C1 as stated. The orientation callback clears the cache and requests a
  refresh although the
  breakpoint is the same before and after: the viewport goes from 1200 to 1000 wide, both
  desktop.
\<close>

theorem orientation_clears_unchanged_breakpoint:
  "currentBreakpoint (resolved_once (single_element [])) = Some Desktop
   \<and> first_match 1000 BREAKPOINTS_entries = Some Desktop
   \<and> cache_lookup (resolved_once (single_element [])) 0 ''y_desktop'' = Some (JNumber (Finite 0))
   \<and> currentBreakpoint (orientation_callback (viewport_width_changes 1000
        (resolved_once (single_element [])))) = Some Desktop
   \<and> cache_lookup (orientation_callback (viewport_width_changes 1000
        (resolved_once (single_element [])))) 0 ''y_desktop'' = None
   \<and> refreshes (resolved_once (single_element [])) = 0
   \<and> refreshes (orientation_callback (viewport_width_changes 1000
        (resolved_once (single_element [])))) = 1"
  by code_simp

text \<open>
  Claim C1, amended. When the resize timer fires, the breakpoint is obtained from
  \<^verbatim>\<open>getCurrentBreakpoint\<close> and becomes the active one; when it does not differ from
  the active breakpoint the cache is left as it is and no refresh is requested. When the
  orientation timer fires, the breakpoint obtained from \<^verbatim>\<open>getCurrentBreakpoint\<close>
  becomes the active one, the whole cache is cleared and a refresh is requested, in every
  state.
\<close>

theorem callbacks_clear_by_design:
  "currentBreakpoint (resize_callback s) = Some (fst (getCurrentBreakpoint s))
   \<and> (currentBreakpoint (snd (getCurrentBreakpoint s)) = Some (fst (getCurrentBreakpoint s)) \<longrightarrow>
        responsiveValueCache (resize_callback s) = responsiveValueCache s
        \<and> refreshes (resize_callback s) = refreshes s)
   \<and> currentBreakpoint (orientation_callback s) = Some (fst (getCurrentBreakpoint s))
   \<and> responsiveValueCache (orientation_callback s) = Map.empty
   \<and> refreshes (orientation_callback s) = Suc (refreshes s)"
proof -
  obtain b s1 where g: "getCurrentBreakpoint s = (b, s1)" by (cases "getCurrentBreakpoint s")
  have c: "responsiveValueCache s1 = responsiveValueCache s"
    using getCurrentBreakpoint_cache [of s] by (simp add: g)
  have r: "refreshes s1 = refreshes s"
    using getCurrentBreakpoint_refreshes [of s] by (simp add: g)
  show ?thesis
    by (simp add: resize_callback_def orientation_callback_def g c r)
qed

theorem callbacks_clear_by_design_witness:
  "currentBreakpoint (snd (getCurrentBreakpoint (viewport_width_changes 1000 (resolved_once (single_element [])))))
     = Some (fst (getCurrentBreakpoint (viewport_width_changes 1000 (resolved_once (single_element [])))))
   \<and> responsiveValueCache (resize_callback (viewport_width_changes 1000 (resolved_once (single_element []))))
     = responsiveValueCache (viewport_width_changes 1000 (resolved_once (single_element [])))
   \<and> refreshes (resize_callback (viewport_width_changes 1000 (resolved_once (single_element [])))) = 0
   \<and> responsiveValueCache (orientation_callback (viewport_width_changes 1000 (resolved_once (single_element []))))
     = Map.empty
   \<and> refreshes (orientation_callback (viewport_width_changes 1000 (resolved_once (single_element [])))) = 1"
proof -
  let ?s = "viewport_width_changes 1000 (resolved_once (single_element []))"
  have h: "currentBreakpoint (snd (getCurrentBreakpoint ?s)) = Some (fst (getCurrentBreakpoint ?s))"
    by code_simp
  have r: "refreshes ?s = 0" by code_simp
  from callbacks_clear_by_design [of ?s] h r show ?thesis by simp
qed

section \<open>Resolution order\<close>

text \<open>
  Against claim C4 as stated. The resolution order does not hold in every state: with neither attribute present, a
  call whose caller supplies the default 5 returns 0, the default an earlier call has
  left in the cache.
\<close>

theorem memoised_default_beats_later_default:
  "getAttribute (single_element []) 0 ''data-gsap-delay-desktop'' = None
   \<and> getAttribute (single_element []) 0 ''data-gsap-delay'' = None
   \<and> fst (getCurrentBreakpoint (snd (getResponsiveValue (single_element []) 0 ''delay''
              (JNumber (Finite 0)) (initial_state 1200)))) = Desktop
   \<and> fst (getResponsiveValue (single_element []) 0 ''delay'' (JNumber (Finite 5))
            (snd (getResponsiveValue (single_element []) 0 ''delay'' (JNumber (Finite 0))
                    (initial_state 1200)))) = JNumber (Finite 0)
   \<and> fst (getResponsiveValue (single_element []) 0 ''delay'' (JNumber (Finite 5))
            (snd (getResponsiveValue (single_element []) 0 ''delay'' (JNumber (Finite 0))
                    (initial_state 1200)))) \<noteq> JNumber (Finite 5)"
  by code_simp

text \<open>
  Claim C4, amended. \<^verbatim>\<open>getResponsiveValue\<close> returns the value memoised for the
  element, the parameter and the active breakpoint when there is one; otherwise it
  resolves by priority: the value of the breakpoint-specific attribute when present,
  else the value of the generic attribute when present, else the default of the caller.
\<close>

theorem memo_then_resolution_order:
  "fst (getResponsiveValue doc e p d s) =
     (case cache_lookup s e (p @ ''_'' @ bp_name (fst (getCurrentBreakpoint s))) of
        Some memoised \<Rightarrow> memoised
      | None \<Rightarrow>
          (case getAttribute doc e (''data-gsap-'' @ p @ ''-'' @ bp_name (fst (getCurrentBreakpoint s))) of
             Some v \<Rightarrow> parse_value v
           | None \<Rightarrow>
               (case getAttribute doc e (''data-gsap-'' @ p) of
                  Some v \<Rightarrow> parse_value v
                | None \<Rightarrow> d)))"
  unfolding getResponsiveValue_fst resolution_order_def by (rule refl)

theorem memo_then_resolution_order_witness:
  "fst (getResponsiveValue
          (single_element [(''data-gsap-end-y'', ''40''), (''data-gsap-end-y-tablet'', ''20'')]) 0 ''end-y''
          (JNumber (Finite 0)) (initial_state 800)) = JNumber (Finite 20)
   \<and> fst (getResponsiveValue
          (single_element [(''data-gsap-end-y'', ''40''), (''data-gsap-end-y-tablet'', ''20'')]) 0 ''end-y''
          (JNumber (Finite 0)) (initial_state 1200)) = JNumber (Finite 40)
   \<and> fst (getResponsiveValue
          (single_element [(''data-gsap-end-y'', ''40''), (''data-gsap-end-y-tablet'', ''20'')]) 0 ''end-x''
          (JNumber (Finite 0)) (initial_state 1200)) = JNumber (Finite 0)"
proof -
  let ?doc = "single_element [(''data-gsap-end-y'', ''40''), (''data-gsap-end-y-tablet'', ''20'')]"
  have b1: "fst (getCurrentBreakpoint (initial_state 800)) = Tablet"
    and b2: "fst (getCurrentBreakpoint (initial_state 1200)) = Desktop"
    by code_simp+
  have c: "cache_lookup (initial_state w) 0 k = None" for w k
    by (simp add: cache_lookup_def initial_state_def)
  have a: "getAttribute ?doc 0 ''data-gsap-end-y-tablet'' = Some ''20''"
    "getAttribute ?doc 0 ''data-gsap-end-y-desktop'' = None"
    "getAttribute ?doc 0 ''data-gsap-end-y'' = Some ''40''"
    "getAttribute ?doc 0 ''data-gsap-end-x-desktop'' = None"
    "getAttribute ?doc 0 ''data-gsap-end-x'' = None"
    by (simp_all add: getAttribute_def single_element_def)
  have p: "parse_value ''20'' = JNumber (Finite 20)" "parse_value ''40'' = JNumber (Finite 40)"
    by code_simp+
  show ?thesis
    using memo_then_resolution_order [of ?doc 0 "''end-y''" "JNumber (Finite 0)" "initial_state 800"]
      memo_then_resolution_order [of ?doc 0 "''end-y''" "JNumber (Finite 0)" "initial_state 1200"]
      memo_then_resolution_order [of ?doc 0 "''end-x''" "JNumber (Finite 0)" "initial_state 1200"]
    by (simp add: b1 b2 c a p)
qed

section \<open>Numeric parsing\<close>



section \<open>Exclusion\<close>

lemma excluded_by_list_iff:
  "excluded_by_list n names \<longleftrightarrow> (\<exists>name \<in> set names. names_breakpoint_from n name)"
  by (induction names) (auto simp add: names_breakpoint_from_def split: option.splits)

lemma exclude_list_empty_value:
  "getAttribute doc e ''data-gsap-exclude'' = Some [] \<Longrightarrow>
     \<not> (\<exists>name \<in> set (exclude_list doc e). names_breakpoint_from n name)"
  by (simp add: exclude_list_def names_breakpoint_from_def breakpoint_named_def
      BREAKPOINTS_keys_def trim_def)

lemma shouldExcludeAnimation_fst:
  "fst (shouldExcludeAnimation doc e s) =
     (case cache_lookup s e (''exclude_'' @ bp_name (fst (getCurrentBreakpoint s))) of
        Some c \<Rightarrow> c
      | None \<Rightarrow>
          JBool ((\<exists>name \<in> set (exclude_list doc e).
                    names_breakpoint_from (order (BREAKPOINTS (fst (getCurrentBreakpoint s)))) name)
                 \<or> hasAttribute doc e (''data-gsap-exclude-'' @ bp_name (fst (getCurrentBreakpoint s)))))"
proof -
  obtain b s1 where g: "getCurrentBreakpoint s = (b, s1)" by (cases "getCurrentBreakpoint s")
  obtain m s2 where c: "cacheResponsiveValuesForElement e s1 = (m, s2)"
    by (cases "cacheResponsiveValuesForElement e s1")
  have m: "m k = cache_lookup s e k" for k
    using cacheResponsiveValuesForElement_fst [of e s1 k] cache_lookup_getCurrentBreakpoint [of s e k]
    by (simp add: g c)
  show ?thesis
  proof (cases "getAttribute doc e ''data-gsap-exclude''")
    case None
    then show ?thesis
      by (simp add: shouldExcludeAnimation_def Let_def g c m exclude_list_def split: option.splits)
  next
    case (Some v)
    show ?thesis
    proof (cases "v = []")
      case True
      with Some exclude_list_empty_value [of doc e "order (BREAKPOINTS b)"] show ?thesis
        by (simp add: shouldExcludeAnimation_def Let_def g c m split: option.splits)
    next
      case False
      have "exclude_list doc e = map trim (split_on (CHR '','') v)"
        using Some by (simp add: exclude_list_def)
      with Some False show ?thesis
        by (simp add: shouldExcludeAnimation_def Let_def g c m excluded_by_list_iff
            split: option.splits)
    qed
  qed
qed

text \<open>
  Against claim C3 as stated. The exclude list alone does not decide the result: at desktop an element with
  \<^verbatim>\<open>exclude="mobile-p"\<close> names no breakpoint of order at least 4, and is excluded all
  the same when it carries the legacy attribute \<^verbatim>\<open>data-gsap-exclude-desktop\<close>.
\<close>

theorem legacy_attribute_excludes:
  "exclude_list (single_element [(''data-gsap-exclude'', ''mobile-p''), (''data-gsap-exclude-desktop'', ''true'')]) 0
     = [''mobile-p'']
   \<and> fst (getCurrentBreakpoint (initial_state 1200)) = Desktop
   \<and> names_breakpoint_from (order (BREAKPOINTS Desktop)) ''mobile-p'' = False
   \<and> fst (shouldExcludeAnimation
            (single_element [(''data-gsap-exclude'', ''mobile-p''), (''data-gsap-exclude-desktop'', ''true'')]) 0
            (initial_state 1200)) = JBool True"
  by code_simp

text \<open>
  Claim C3, amended. When no exclusion result is cached for the element at the current
  breakpoint, \<^verbatim>\<open>shouldExcludeAnimation\<close> returns true exactly when some name of the
  exclude list (comma-separated, trimmed) is a breakpoint whose order is at least the
  order of the current breakpoint, or the element carries the legacy attribute
  \<^verbatim>\<open>data-gsap-exclude-\<close> followed by the name of the current breakpoint. Names that are
  no breakpoint are ignored. With \<^verbatim>\<open>exclude="tablet"\<close> and no legacy attribute an
  element is excluded at tablet, mobile-l and mobile-p and not at desktop.
\<close>

theorem exclusion_cascade_or_legacy:
  assumes "cache_lookup s e (''exclude_'' @ bp_name (fst (getCurrentBreakpoint s))) = None"
  shows "fst (shouldExcludeAnimation doc e s) =
           JBool ((\<exists>name \<in> set (exclude_list doc e).
                     names_breakpoint_from (order (BREAKPOINTS (fst (getCurrentBreakpoint s)))) name)
                  \<or> hasAttribute doc e (''data-gsap-exclude-'' @ bp_name (fst (getCurrentBreakpoint s))))"
  using assms by (simp add: shouldExcludeAnimation_fst)

theorem exclusion_cascade_or_legacy_witness:
  "fst (shouldExcludeAnimation (single_element [(''data-gsap-exclude'', ''tablet'')]) 0 (initial_state 1200))
     = JBool False
   \<and> fst (shouldExcludeAnimation (single_element [(''data-gsap-exclude'', ''tablet'')]) 0 (initial_state 800))
     = JBool True
   \<and> fst (shouldExcludeAnimation (single_element [(''data-gsap-exclude'', ''tablet'')]) 0 (initial_state 500))
     = JBool True
   \<and> fst (shouldExcludeAnimation (single_element [(''data-gsap-exclude'', ''tablet'')]) 0 (initial_state 300))
     = JBool True"
proof -
  let ?doc = "single_element [(''data-gsap-exclude'', ''tablet'')]"
  have b: "fst (getCurrentBreakpoint (initial_state 1200)) = Desktop"
    "fst (getCurrentBreakpoint (initial_state 800)) = Tablet"
    "fst (getCurrentBreakpoint (initial_state 500)) = MobileL"
    "fst (getCurrentBreakpoint (initial_state 300)) = MobileP"
    by code_simp+
  have c: "cache_lookup (initial_state w) 0 k = None" for w k
    by (simp add: cache_lookup_def initial_state_def)
  have l: "exclude_list ?doc 0 = [''tablet'']"
    by code_simp
  have n: "\<not> names_breakpoint_from 4 ''tablet''" "names_breakpoint_from 3 ''tablet''"
    "names_breakpoint_from 2 ''tablet''" "names_breakpoint_from (Suc 0) ''tablet''"
    by code_simp+
  have h: "\<not> hasAttribute ?doc 0 ''data-gsap-exclude-desktop''"
    by (simp add: hasAttribute_def single_element_def)
  show ?thesis
    using exclusion_cascade_or_legacy [of "initial_state 1200" 0 ?doc]
      exclusion_cascade_or_legacy [of "initial_state 800" 0 ?doc]
      exclusion_cascade_or_legacy [of "initial_state 500" 0 ?doc]
      exclusion_cascade_or_legacy [of "initial_state 300" 0 ?doc]
    by (simp add: b c l n h)
qed

section \<open>A preset, end to end\<close>

lemma fadeUp_expanded:
  "\<not> isl (preset_expander fadeUp_presets fadeUp_document)"
  "getAttribute (final_document (preset_expander fadeUp_presets fadeUp_document)) 0
     ''data-gsap-start-y-tablet'' = Some ''20''"
  "getAttribute (final_document (preset_expander fadeUp_presets fadeUp_document)) 0
     ''data-gsap-start-y-desktop'' = None"
  "getAttribute (final_document (preset_expander fadeUp_presets fadeUp_document)) 0
     ''data-gsap-start-y'' = Some ''40''"
  by code_simp+

text \<open>
  Calls of the resolver leave the breakpoint as it is, and under the key of
  \<^verbatim>\<open>start-y\<close> they store nothing but the value the attributes resolve to.
\<close>

lemma fadeUp_start_y_kept:
  assumes b: "fst (getCurrentBreakpoint s) = b"
    and r: "\<And>d. resolution_order doc 0 ''start-y'' b d = v"
    and c: "cache_lookup s 0 (''start-y_'' @ bp_name b) = None
            \<or> cache_lookup s 0 (''start-y_'' @ bp_name b) = Some v"
  shows "fst (getCurrentBreakpoint (run_calls doc calls s)) = b
       \<and> (cache_lookup (run_calls doc calls s) 0 (''start-y_'' @ bp_name b) = None
            \<or> cache_lookup (run_calls doc calls s) 0 (''start-y_'' @ bp_name b) = Some v)"
  using b c
proof (induction calls arbitrary: s)
  case Nil
  then show ?case by simp
next
  case (Cons call calls)
  have b': "fst (getCurrentBreakpoint (run_call doc call s)) = b"
    using Cons.prems(1)
    by (cases call)
      (simp_all add: getResponsiveValue_bp shouldExcludeAnimation_bp getCurrentBreakpoint_Some)
  have c': "cache_lookup (run_call doc call s) 0 (''start-y_'' @ bp_name b) = None
            \<or> cache_lookup (run_call doc call s) 0 (''start-y_'' @ bp_name b) = Some v"
  proof (cases call)
    case (GetResponsiveValue e p d)
    have "fst (getResponsiveValue doc 0 ''start-y'' d s) = v"
      if "cache_lookup s 0 (''start-y_'' @ bp_name b) = None"
      using that Cons.prems(1) r by (simp add: getResponsiveValue_fst)
    then show ?thesis
      using GetResponsiveValue Cons.prems
      by (auto simp add: getResponsiveValue_lookup)
  next
    case (ShouldExcludeAnimation e)
    then show ?thesis
      using Cons.prems by (auto simp add: shouldExcludeAnimation_lookup)
  qed
  from Cons.IH [OF b' c'] show ?case by simp
qed

lemma fadeUp_start_y_after_calls:
  assumes "fst (getCurrentBreakpoint s) = b"
    and "\<And>d. resolution_order doc 0 ''start-y'' b d = v"
    and "cache_lookup s 0 (''start-y_'' @ bp_name b) = None"
  shows "fst (getResponsiveValue doc 0 ''start-y'' d (run_calls doc calls s)) = v"
proof -
  from fadeUp_start_y_kept [of s b doc v calls] assms
  have b: "fst (getCurrentBreakpoint (run_calls doc calls s)) = b"
    and c: "cache_lookup (run_calls doc calls s) 0 (''start-y_'' @ bp_name b) = None
            \<or> cache_lookup (run_calls doc calls s) 0 (''start-y_'' @ bp_name b) = Some v"
    by simp_all
  from c show ?thesis
    using assms(2) by (auto simp add: getResponsiveValue_fst b)
qed

text \<open>
  Claim C5. After the expander has run on the fadeUp preset document and the element
  tagged \<^verbatim>\<open>data-gsap-view="fadeUp"\<close>, resolving \<^verbatim>\<open>start-y\<close> gives the number 20 in a
  viewport of the tablet range and the number 40 in a viewport of the desktop range,
  at the first call and after any calls of the resolver, with any default; the run of
  the expander throws nothing and has written the attribute
  \<^verbatim>\<open>data-gsap-start-y-tablet\<close>.
\<close>

theorem fadeUp_start_y_by_breakpoint:
  "(768 \<le> w \<and> w \<le> 991 \<longrightarrow>
      fst (getResponsiveValue (final_document (preset_expander fadeUp_presets fadeUp_document)) 0
             ''start-y'' d
             (run_calls (final_document (preset_expander fadeUp_presets fadeUp_document)) calls
                (initial_state w))) = JNumber (Finite 20))
   \<and> (992 \<le> w \<longrightarrow>
      fst (getResponsiveValue (final_document (preset_expander fadeUp_presets fadeUp_document)) 0
             ''start-y'' d
             (run_calls (final_document (preset_expander fadeUp_presets fadeUp_document)) calls
                (initial_state w))) = JNumber (Finite 40))
   \<and> \<not> isl (preset_expander fadeUp_presets fadeUp_document)
   \<and> getAttribute (final_document (preset_expander fadeUp_presets fadeUp_document)) 0
        ''data-gsap-start-y-tablet'' = Some ''20''"
proof -
  let ?doc = "final_document (preset_expander fadeUp_presets fadeUp_document)"
  have c: "cache_lookup (initial_state w) 0 k = None" for k
    by (simp add: cache_lookup_def initial_state_def)
  have p: "parse_value ''20'' = JNumber (Finite 20)" "parse_value ''40'' = JNumber (Finite 40)"
    by code_simp+
  have b: "0 \<le> w \<Longrightarrow> fst (getCurrentBreakpoint (initial_state w)) =
      (if w \<le> 479 then MobileP else if w \<le> 767 then MobileL
       else if w \<le> 991 then Tablet else Desktop)"
    by (simp add: getCurrentBreakpoint_def initial_state_def first_match_nonneg)
  have rt: "resolution_order ?doc 0 ''start-y'' Tablet x = JNumber (Finite 20)" for x
    by (simp add: resolution_order_def fadeUp_expanded(2) p)
  have rd: "resolution_order ?doc 0 ''start-y'' Desktop x = JNumber (Finite 40)" for x
    by (simp add: resolution_order_def fadeUp_expanded(3,4) p)
  have t: "fst (getResponsiveValue ?doc 0 ''start-y'' d (run_calls ?doc calls (initial_state w)))
             = JNumber (Finite 20)"
    if "768 \<le> w" "w \<le> 991"
  proof (rule fadeUp_start_y_after_calls [where b = Tablet])
    show "fst (getCurrentBreakpoint (initial_state w)) = Tablet" using that b by simp
  qed (rule rt, rule c)
  have k: "fst (getResponsiveValue ?doc 0 ''start-y'' d (run_calls ?doc calls (initial_state w)))
             = JNumber (Finite 40)"
    if "992 \<le> w"
  proof (rule fadeUp_start_y_after_calls [where b = Desktop])
    show "fst (getCurrentBreakpoint (initial_state w)) = Desktop" using that b by simp
  qed (rule rd, rule c)
  from t k fadeUp_expanded(1,2) show ?thesis by blast
qed

theorem fadeUp_start_y_by_breakpoint_witness:
  "fst (getResponsiveValue (final_document (preset_expander fadeUp_presets fadeUp_document)) 0
          ''start-y'' (JNumber (Finite 0))
          (run_calls (final_document (preset_expander fadeUp_presets fadeUp_document))
             [ShouldExcludeAnimation 0, GetResponsiveValue 0 ''start-y'' (JNumber (Finite 50))]
             (initial_state 800))) = JNumber (Finite 20)
   \<and> fst (getResponsiveValue (final_document (preset_expander fadeUp_presets fadeUp_document)) 0
          ''start-y'' (JNumber (Finite 0))
          (run_calls (final_document (preset_expander fadeUp_presets fadeUp_document)) []
             (initial_state 1200))) = JNumber (Finite 40)"
  using fadeUp_start_y_by_breakpoint [of 800 "JNumber (Finite 0)"
      "[ShouldExcludeAnimation 0, GetResponsiveValue 0 ''start-y'' (JNumber (Finite 50))]"]
    fadeUp_start_y_by_breakpoint [of 1200 "JNumber (Finite 0)" "[]"]
  by simp

section \<open>Attribute names\<close>


lemma hyphen_kept:
  "c \<in> set s \<Longrightarrow> \<not> is_upper c \<Longrightarrow> c \<in> set (toLowerCase (hyphenate_upper s))"
  by (induction s) (auto simp add: toLowerCase_def hyphenate_upper_def to_lower_def)







section \<open>The expander as a sequence of writes\<close>

lemma nodes_setAttribute [simp]: "nodes (setAttribute e n v d) = nodes d"
  by (simp add: setAttribute_def)


lemma nodes_perform [simp]: "nodes (perform w d) = nodes d"
  by (cases w) simp_all

lemma nodes_perform_all [simp]: "nodes (perform_all ws d) = nodes d"
  by (induction ws arbitrary: d) simp_all
































section \<open>Running the expander twice\<close>







lemma more_perform_all [simp]: "document.more (perform_all ws d) = document.more d"
proof (induction ws arbitrary: d)
  case Nil
  then show ?case by simp
next
  case (Cons w ws)
  have "document.more (perform w d) = document.more d"
    by (cases w) (simp_all add: setAttribute_def)
  with Cons show ?case by simp
qed


lemma final_document_result_of [simp]:
  "final_document (result_of script d) = perform_all (fst script) d"
  by (simp add: result_of_def)









section \<open>What one preset entry writes\<close>

lemma set_breakpoint_attrs_eq:
  "set_breakpoint_attrs e key kvs d =
     d\<lparr>attrs := (attrs d)(e := attrs d e ++
          map_of (rev (map (\<lambda>kx. (toDataAttr (fst kx @ ''-'' @ key), ToString (snd kx))) kvs)))\<rparr>"
proof (induction kvs arbitrary: d)
  case Nil
  then show ?case by simp
next
  case (Cons kx kvs)
  let ?pair = "\<lambda>kx. (toDataAttr (fst kx @ ''-'' @ key), ToString (snd kx))"
  let ?d' = "setAttribute e (fst (?pair kx)) (snd (?pair kx)) d"
  have "set_breakpoint_attrs e key (kx # kvs) d = set_breakpoint_attrs e key kvs ?d'"
    by (cases kx) simp
  also have "\<dots> = ?d'\<lparr>attrs := (attrs ?d')(e := attrs ?d' e ++ map_of (rev (map ?pair kvs)))\<rparr>"
    by (rule Cons.IH)
  also have "\<dots> = d\<lparr>attrs := (attrs d)(e := attrs d e ++ map_of (rev (map ?pair (kx # kvs))))\<rparr>"
  proof (rule document.equality)
    show "attrs (?d'\<lparr>attrs := (attrs ?d')(e := attrs ?d' e ++ map_of (rev (map ?pair kvs)))\<rparr>)
        = attrs (d\<lparr>attrs := (attrs d)(e := attrs d e ++ map_of (rev (map ?pair (kx # kvs))))\<rparr>)"
      by (auto simp add: setAttribute_def fun_eq_iff map_add_def split: option.splits)
  qed (simp_all add: setAttribute_def)
  finally show ?case .
qed

text \<open>
  Against claim C9 as stated. A breakpoint key whose value is not an object writes
  nothing: with the preset
  \<^verbatim>\<open>{"tablet": 5}\<close> the run leaves the document as it was, and there is no
  attribute \<^verbatim>\<open>data-gsap-tablet\<close>.
\<close>

theorem scalar_under_breakpoint_key_not_written:
  "''tablet'' \<in> set breakpoints
   \<and> typeof_object (JNumber (Finite 5)) = False
   \<and> preset_expander scalar_breakpoint_presets fadeUp_document = Inr fadeUp_document
   \<and> getAttribute (final_document (preset_expander scalar_breakpoint_presets fadeUp_document)) 0
        (toDataAttr ''tablet'') = None"
proof -
  have "apply_entry 0 (''tablet'', JNumber (Finite 5)) fadeUp_document = Inr fadeUp_document"
    by (simp add: apply_entry_def breakpoints_def)
  then have "preset_expander scalar_breakpoint_presets fadeUp_document = Inr fadeUp_document"
    by (simp add: preset_expander_def scalar_breakpoint_presets_def expand_type_def
        querySelectorAll_def hasAttribute_def fadeUp_document_def single_element_def
        expand_element_def getAttribute_def)
  moreover have "getAttribute fadeUp_document 0 (toDataAttr ''tablet'') = None"
    by code_simp
  ultimately show ?thesis by (simp add: breakpoints_def)
qed

text \<open>
  Claim C9, amended. For a preset entry other than split, exclude and a trigger on an
  element that has a trigger attribute: when the key is a breakpoint and the value is an
  object with entries, each nested key is written as the attribute named by the nested
  key, a hyphen and the breakpoint (the last of equal names wins) and nothing else
  changes; when the key is a breakpoint and the value is not an object, nothing is
  written; when the key is no breakpoint, the one attribute named by the key is written
  with the value. Nested key \<^verbatim>\<open>y\<close> under \<^verbatim>\<open>tablet\<close> becomes \<^verbatim>\<open>data-gsap-y-tablet\<close>.
\<close>

theorem entry_written_by_kind:
  assumes "key \<noteq> ''split''" and "key \<noteq> ''exclude''"
    and "\<not> (key = ''trigger'' \<and> hasAttribute d e ''data-gsap-trigger'')"
  shows "(key \<in> set breakpoints \<longrightarrow> typeof_object v \<longrightarrow> Object_entries v = Inr kvs \<longrightarrow>
            apply_entry e (key, v) d =
              Inr (d\<lparr>attrs := (attrs d)(e := attrs d e ++
                     map_of (rev (map (\<lambda>kx. (toDataAttr (fst kx @ ''-'' @ key), ToString (snd kx))) kvs)))\<rparr>))
       \<and> (key \<in> set breakpoints \<longrightarrow> \<not> typeof_object v \<longrightarrow> apply_entry e (key, v) d = Inr d)
       \<and> (key \<notin> set breakpoints \<longrightarrow>
            apply_entry e (key, v) d = Inr (setAttribute e (toDataAttr key) (ToString v) d))"
  using assms by (auto simp add: apply_entry_def set_breakpoint_attrs_eq)

theorem entry_written_by_kind_witness:
  "getAttribute (final_document (apply_entry 0 (''tablet'', JObject [(''y'', JNumber (Finite 10))])
       fadeUp_document)) 0 ''data-gsap-y-tablet'' = Some ''10''
   \<and> apply_entry 0 (''tablet'', JNumber (Finite 5)) fadeUp_document = Inr fadeUp_document
   \<and> apply_entry 0 (''startOpacity'', JNumber (Finite 0.5)) fadeUp_document
       = Inr (setAttribute 0 ''data-gsap-start-opacity'' ''0.5'' fadeUp_document)"
proof -
  have k: "''tablet'' \<in> set breakpoints" "''startOpacity'' \<notin> set breakpoints"
    by (simp_all add: breakpoints_def)
  have n: "toDataAttr ''startOpacity'' = ''data-gsap-start-opacity''"
    "ToString (JNumber (Finite 0.5)) = ''0.5''"
    "toDataAttr (''y'' @ ''-'' @ ''tablet'') = ''data-gsap-y-tablet''"
    "ToString (JNumber (Finite 10)) = ''10''"
    by code_simp+
  have t: "\<not> hasAttribute fadeUp_document 0 ''data-gsap-trigger''"
    by code_simp
  from entry_written_by_kind [of "''tablet''" fadeUp_document 0
      "JObject [(''y'', JNumber (Finite 10))]" "[(''y'', JNumber (Finite 10))]"] k n
  have y: "getAttribute (final_document (apply_entry 0 (''tablet'', JObject [(''y'', JNumber (Finite 10))])
       fadeUp_document)) 0 ''data-gsap-y-tablet'' = Some ''10''"
    by (simp add: getAttribute_def)
  from entry_written_by_kind [of "''tablet''" fadeUp_document 0 "JNumber (Finite 5)" "[]"]
    entry_written_by_kind [of "''startOpacity''" fadeUp_document 0 "JNumber (Finite 0.5)" "[]"]
  show ?thesis using k n y by simp
qed

end
